theory Spec2Isabelle
  imports Complex_Main
begin

section \<open>Data model of \<open>app.py\<close>\<close>

text \<open>
  A row of the \<open>quizzes\<close> table is \<open>(id, title)\<close>; a row of the \<open>questions\<close> table is
  \<open>(id, question, option_a, option_b, option_c, option_d)\<close>. Python strings are modelled
  as \<open>string\<close>, one \<open>char\<close> per code point (code points below 256).
\<close>

type_synonym quiz_row = "int \<times> string"

type_synonym question_row = "int \<times> string \<times> string \<times> string \<times> string \<times> string"

text \<open>The dictionary appended to \<open>st.session_state.answers\<close> (lines 187-191, 200-204).\<close>

record answer =
  question :: string
  selected_answer :: string
  rationale :: string

text \<open>
  \<open>st.session_state\<close> after the initialisation block (lines 117-132). The type \<open>'f\<close> is
  the type of Python numbers that scores have.
\<close>

record 'f session_state =
  username :: string
  selected_quiz :: "int option"
  questions :: "question_row list"
  current_question_index :: int
  answers :: "answer list"
  quiz_completed :: bool
  total_score :: 'f
  proceed_to_quiz :: bool

text \<open>What \<open>st.success\<close>, \<open>st.warning\<close> and \<open>st.error\<close> report to the user.\<close>

datatype message = Success string | Warning string | Error string

text \<open>
  Failures. \<open>KeyError\<close>, \<open>IndexError\<close> and \<open>ZeroDivisionError\<close> are the exceptions that
  the statements of \<open>main\<close> can raise by themselves. \<open>GraderError\<close> stands for whatever
  exception the call \<open>llm.complete(prompt)\<close> raises; line 106 is outside the \<open>try\<close>
  block, so it leaves \<open>get_score_from_groq\<close> and \<open>main\<close> uncaught. \<open>EmptyScoreSet\<close> is the
  error that the specification names for aggregating no scores; no statement of the
  script raises it.
\<close>

datatype exn = KeyError | IndexError | ZeroDivisionError | GraderError | EmptyScoreSet

text \<open>
  How a part of the script ends: it falls through to the next statement, it calls
  \<open>st.rerun()\<close> (which stops the script run), or it raises.
\<close>

datatype flow = Fallthrough | Rerun | Raised exn

type_synonym 'f outcome = "'f session_state \<times> message list \<times> flow"

subsection \<open>The widgets of one script run\<close>

datatype button = Proceed | Previous | Next | Submit | Retake_Quiz | Exit

text \<open>
  The values that the widgets return during one run of the script: the text input of the
  user name, the selected title of the select box, the selected radio option, the text
  area of the rationale, and the button that was clicked to trigger the run, if any.
\<close>

record widgets =
  text_input :: string
  selectbox :: string
  radio :: string
  text_area :: string
  clicked :: "button option"

definition st_button :: "widgets \<Rightarrow> button \<Rightarrow> bool" where
  "st_button ui b = (clicked ui = Some b)"

subsection \<open>The external services during one script run\<close>

text \<open>
  The database and the language model are outside the program. A query gives its rows or
  raises inside the \<open>try\<close> block (\<open>Inl\<close> carries the text of the exception); the insert
  gives \<open>None\<close> on success or the text of the exception; \<open>llm_complete\<close> maps a prompt
  to the text of the response, or to \<open>None\<close> when the call raises. Closing the cursor and
  the connection in the \<open>finally\<close> blocks is taken not to raise.
\<close>

record 'f env =
  quizzes_query :: "string + quiz_row list"
  questions_query :: "int option \<Rightarrow> string + question_row list"
  results_insert :: "int option \<Rightarrow> string \<Rightarrow> answer list \<Rightarrow> 'f \<Rightarrow> string option"
  llm_complete :: "string \<Rightarrow> string option"

subsection \<open>Python numbers\<close>

text \<open>
  The arithmetic of Python floats is a parameter of the model: \<open>float_of_str\<close> is the
  builtin \<open>float\<close> on a string (\<open>None\<close> for \<open>ValueError\<close>), \<open>zero\<close> is the number \<open>0\<close>,
  \<open>add\<close> is \<open>+\<close> and \<open>div_len x n\<close> is \<open>x / n\<close> for a positive list length \<open>n\<close>.
\<close>

record 'f pyfloat =
  float_of_str :: "string \<Rightarrow> 'f option"
  zero :: 'f
  add :: "'f \<Rightarrow> 'f \<Rightarrow> 'f"
  div_len :: "'f \<Rightarrow> nat \<Rightarrow> 'f"

section \<open>Python builtins used by the script\<close>

text \<open>\<open>str.isspace\<close> on one character, for code points below 256.\<close>

definition isspace :: "char \<Rightarrow> bool" where
  "isspace c = (let n = (of_char c :: nat) in
     (9 \<le> n \<and> n \<le> 13) \<or> (28 \<le> n \<and> n \<le> 32) \<or> n = 133 \<or> n = 160)"

definition strip :: "string \<Rightarrow> string" where
  "strip s = rev (dropWhile isspace (rev (dropWhile isspace s)))"

text \<open>\<open>xs[i]\<close>: a negative index counts from the end, an index out of range raises.\<close>

definition getitem :: "'a list \<Rightarrow> int \<Rightarrow> exn + 'a" where
  "getitem xs i =
     (if 0 \<le> i \<and> i < int (length xs) then Inr (xs ! nat i)
      else if i < 0 \<and> - int (length xs) \<le> i then Inr (xs ! nat (int (length xs) + i))
      else Inl IndexError)"

text \<open>\<open>sum(scores)\<close>: adds the elements from the left, starting from \<open>0\<close>.\<close>

definition py_sum :: "'f pyfloat \<Rightarrow> 'f list \<Rightarrow> 'f" where
  "py_sum py scores = foldl (add py) (zero py) scores"

text \<open>\<open>x / len(scores)\<close>: raises \<open>ZeroDivisionError\<close> when the length is \<open>0\<close>.\<close>

definition truediv_len :: "'f pyfloat \<Rightarrow> 'f \<Rightarrow> nat \<Rightarrow> exn + 'f" where
  "truediv_len py x n = (if n = 0 then Inl ZeroDivisionError else Inr (div_len py x n))"

text \<open>Line 217: \<open>sum(scores) / len(scores)\<close>.\<close>

definition aggregate :: "'f pyfloat \<Rightarrow> 'f list \<Rightarrow> exn + 'f" where
  "aggregate py scores = truediv_len py (py_sum py scores) (length scores)"

text \<open>
  The dictionary comprehension \<open>{quiz[1]: quiz[0] for quiz in quizzes}\<close> followed by a
  lookup \<open>quiz_options[title]\<close>: the last row with the title wins, a missing title raises.
\<close>

definition quiz_options :: "quiz_row list \<Rightarrow> string \<Rightarrow> exn + int" where
  "quiz_options quizzes title =
     (case map_of (rev (map (\<lambda>quiz. (snd quiz, fst quiz)) quizzes)) title of
        None \<Rightarrow> Inl KeyError
      | Some quiz_id \<Rightarrow> Inr quiz_id)"

section \<open>The functions of the script\<close>

definition fetch_quizzes :: "'f env \<Rightarrow> quiz_row list \<times> message list" where
  "fetch_quizzes env =
     (case quizzes_query env of
        Inr quizzes \<Rightarrow> (quizzes, [])
      | Inl e \<Rightarrow> ([], [Error (''Error fetching quizzes: '' @ e)]))"

definition fetch_questions :: "'f env \<Rightarrow> int option \<Rightarrow> question_row list \<times> message list" where
  "fetch_questions env quiz_id =
     (case questions_query env quiz_id of
        Inr qs \<Rightarrow> (qs, [])
      | Inl e \<Rightarrow> ([], [Error (''Error fetching questions: '' @ e)]))"

definition log_quiz_results ::
  "'f env \<Rightarrow> int option \<Rightarrow> string \<Rightarrow> answer list \<Rightarrow> 'f \<Rightarrow> message list" where
  "log_quiz_results env quiz_id candidate_name as score =
     (case results_insert env quiz_id candidate_name as score of
        None \<Rightarrow> [Success ''Quiz results logged successfully!'']
      | Some e \<Rightarrow> [Error (''Error logging quiz results: '' @ e)])"

definition prompt :: "string \<Rightarrow> string \<Rightarrow> string \<Rightarrow> string" where
  "prompt q sel r =
     ''Question: '' @ q @ [CHR 0x0A] @
     ''Selected Answer: '' @ sel @ [CHR 0x0A] @
     ''Rationale: '' @ r @ [CHR 0x0A, CHR 0x0A] @
     ''Rate the user'' @ [CHR 0x27] @ ''s answer and rationale on a scale of 0 to 10, where 10 is excellent. '' @
     ''Provide only the numeric score (e.g., 8).''"

text \<open>
  The \<open>try\<close> block of \<open>get_score_from_groq\<close> (lines 107-111) on the text of a response:
  the score and what is reported.
\<close>

definition parse_score :: "'f pyfloat \<Rightarrow> string \<Rightarrow> 'f \<times> message list" where
  "parse_score py response =
     (case float_of_str py (strip response) of
        Some v \<Rightarrow> (v, [])
      | None \<Rightarrow> (zero py, [Error (''Failed to parse score from Groq response: '' @ response)]))"

text \<open>
  \<open>get_score_from_groq\<close> (lines 97-111). The call of the grader comes before the \<open>try\<close>
  block: when it raises, so does the function.
\<close>

definition get_score_from_groq ::
  "'f pyfloat \<Rightarrow> 'f env \<Rightarrow> string \<Rightarrow> string \<Rightarrow> string \<Rightarrow> exn + 'f \<times> message list" where
  "get_score_from_groq py env q sel r =
     (case llm_complete env (prompt q sel r) of
        None \<Rightarrow> Inl GraderError
      | Some response \<Rightarrow> Inr (parse_score py response))"

text \<open>
  The loop of lines 207-214 over \<open>st.session_state.answers\<close>, with the list \<open>scores\<close>
  and the messages reported so far as accumulators. It gives the scores and the messages
  at the point where it ends, and the exception that ended it, if any.
\<close>

fun score_loop ::
  "'f pyfloat \<Rightarrow> 'f env \<Rightarrow> answer list \<Rightarrow> 'f list \<Rightarrow> message list \<Rightarrow>
   'f list \<times> message list \<times> exn option" where
  "score_loop py env [] scores msgs = (scores, msgs, None)"
| "score_loop py env (a # as) scores msgs =
     (case get_score_from_groq py env (question a) (selected_answer a) (rationale a) of
        Inl e \<Rightarrow> (scores, msgs, Some e)
      | Inr (score, m) \<Rightarrow> score_loop py env as (scores @ [score]) (msgs @ m))"

text \<open>The list \<open>scores\<close> that the loop builds from a list of recorded answers.\<close>

definition scores_of :: "'f pyfloat \<Rightarrow> 'f env \<Rightarrow> answer list \<Rightarrow> 'f list" where
  "scores_of py env as = fst (score_loop py env as [] [])"

text \<open>The grader returns a response for every one of the recorded answers.\<close>

definition grader_returns :: "'f env \<Rightarrow> answer list \<Rightarrow> bool" where
  "grader_returns env as =
     list_all (\<lambda>a. llm_complete env (prompt (question a) (selected_answer a) (rationale a)) \<noteq> None) as"

section \<open>One run of \<open>main\<close>\<close>

text \<open>The session state that the initialisation block builds when no key is present.\<close>

definition initial :: "'f pyfloat \<Rightarrow> 'f session_state" where
  "initial py =
     \<lparr>username = [], selected_quiz = None, questions = [], current_question_index = 0,
      answers = [], quiz_completed = False, total_score = zero py, proceed_to_quiz = False\<rparr>"

text \<open>The guards of Step 2 (line 141) and of Step 3 (line 156).\<close>

definition awaiting_quiz_selection :: "'f session_state \<Rightarrow> bool" where
  "awaiting_quiz_selection s = (username s \<noteq> [] \<and> \<not> proceed_to_quiz s)"

definition in_progress :: "'f session_state \<Rightarrow> bool" where
  "in_progress s = (proceed_to_quiz s \<and> questions s \<noteq> [] \<and> \<not> quiz_completed s)"

text \<open>
  The Submit button is showing (Step 3 runs, the index is that of the last question) and
  it is clicked with a rationale that is not blank.
\<close>

definition submitting :: "widgets \<Rightarrow> 'f session_state \<Rightarrow> bool" where
  "submitting ui s =
     (username s \<noteq> [] \<and> in_progress s \<and> 0 \<le> current_question_index s \<and>
      current_question_index s < int (length (questions s)) \<and>
      \<not> current_question_index s < int (length (questions s)) - 1 \<and>
      clicked ui = Some Submit \<and> strip (text_area ui) \<noteq> [])"

text \<open>Sequencing: the next part runs only when the one before fell through.\<close>

definition then_part :: "'f outcome \<Rightarrow> ('f session_state \<Rightarrow> 'f outcome) \<Rightarrow> 'f outcome" where
  "then_part r f =
     (case r of
        (s, m, Fallthrough) \<Rightarrow> (case f s of (s', m', c) \<Rightarrow> (s', m @ m', c))
      | (s, m, c) \<Rightarrow> (s, m, c))"

text \<open>Step 1: Enter Username (lines 135-138).\<close>

definition enter_username :: "widgets \<Rightarrow> 'f session_state \<Rightarrow> 'f outcome" where
  "enter_username ui s =
     (if username s = [] then
        (let s1 = s\<lparr>username := text_input ui\<rparr> in
         if username s1 \<noteq> [] then (s1, [Success (''Welcome, '' @ username s1 @ ''!'')], Fallthrough)
         else (s1, [], Fallthrough))
      else (s, [], Fallthrough))"

text \<open>Step 2: Select Quiz (lines 141-153).\<close>

definition select_quiz :: "'f env \<Rightarrow> widgets \<Rightarrow> 'f session_state \<Rightarrow> 'f outcome" where
  "select_quiz env ui s =
     (if awaiting_quiz_selection s then
        (case fetch_quizzes env of (quizzes, m) \<Rightarrow>
           if quizzes \<noteq> [] then
             (case quiz_options quizzes (selectbox ui) of
                Inl e \<Rightarrow> (s, m, Raised e)
              | Inr quiz_id \<Rightarrow>
                  (let s1 = s\<lparr>selected_quiz := Some quiz_id\<rparr> in
                   if st_button ui Proceed then
                     (let s2 = s1\<lparr>proceed_to_quiz := True\<rparr> in
                      case fetch_questions env (selected_quiz s2) of (qs, m') \<Rightarrow>
                        (s2\<lparr>questions := qs\<rparr>, m @ m', Fallthrough))
                   else (s1, m, Fallthrough)))
           else (s, m @ [Warning ''No quizzes available.''], Fallthrough))
      else (s, [], Fallthrough))"

text \<open>
  The body of the Submit button once the rationale is present (lines 199-229): append
  the final answer, grade every recorded answer, average, log, mark as completed, rerun.
  An exception of the grader leaves the body after the append and before anything else
  is assigned.
\<close>

definition submit_answers ::
  "'f pyfloat \<Rightarrow> 'f env \<Rightarrow> answer \<Rightarrow> 'f session_state \<Rightarrow> 'f outcome" where
  "submit_answers py env entry s =
     (let s1 = s\<lparr>answers := answers s @ [entry]\<rparr> in
      case score_loop py env (answers s1) [] [] of
        (scores, m, Some e) \<Rightarrow> (s1, m, Raised e)
      | (scores, m, None) \<Rightarrow>
          (case aggregate py scores of
             Inl e \<Rightarrow> (s1, m, Raised e)
           | Inr mean \<Rightarrow>
               (let s2 = s1\<lparr>total_score := mean\<rparr>;
                    m' = log_quiz_results env (selected_quiz s2) (username s2) (answers s2) (total_score s2);
                    s3 = s2\<lparr>quiz_completed := True\<rparr>
                in (s3, m @ m', Rerun))))"

text \<open>Step 3: Display Questions (lines 156-229).\<close>

definition display_questions ::
  "'f pyfloat \<Rightarrow> 'f env \<Rightarrow> widgets \<Rightarrow> 'f session_state \<Rightarrow> 'f outcome" where
  "display_questions py env ui s =
     (if in_progress s then
        (case getitem (questions s) (current_question_index s) of
           Inl e \<Rightarrow> (s, [], Raised e)
         | Inr (question_id, q, option_a, option_b, option_c, option_d) \<Rightarrow>
             (let sel = radio ui;
                  r = text_area ui;
                  entry = \<lparr>question = q, selected_answer = sel, rationale = r\<rparr>
              in
              if current_question_index s > 0 \<and> st_button ui Previous then
                (s\<lparr>current_question_index := current_question_index s - 1\<rparr>, [], Rerun)
              else if current_question_index s < int (length (questions s)) - 1 then
                (if st_button ui Next then
                   (if strip r = [] then
                      (s, [Warning ''Please provide a rationale before proceeding.''], Fallthrough)
                    else
                      (s\<lparr>answers := answers s @ [entry],
                         current_question_index := current_question_index s + 1\<rparr>, [], Rerun))
                 else (s, [], Fallthrough))
              else
                (if st_button ui Submit then
                   (if strip r = [] then
                      (s, [Warning ''Please provide a rationale before submitting.''], Fallthrough)
                    else submit_answers py env entry s)
                 else (s, [], Fallthrough))))
      else (s, [], Fallthrough))"

text \<open>
  Step 4: End Screen (lines 232-249). \<open>st.session_state.clear()\<close> removes every key, and
  the initialisation block of the next run sets each of them to its default again.
\<close>

definition end_screen :: "'f pyfloat \<Rightarrow> widgets \<Rightarrow> 'f session_state \<Rightarrow> 'f outcome" where
  "end_screen py ui s =
     (if quiz_completed s then
        (let m = [Success ''Quiz completed! Thank you for participating.''] in
         if st_button ui Retake_Quiz then
           (s\<lparr>current_question_index := 0, answers := [], quiz_completed := False,
              total_score := zero py, proceed_to_quiz := False\<rparr>, m, Rerun)
         else if st_button ui Exit then (initial py, m, Rerun)
         else (s, m, Fallthrough))
      else (s, [], Fallthrough))"

definition main :: "'f pyfloat \<Rightarrow> 'f env \<Rightarrow> widgets \<Rightarrow> 'f session_state \<Rightarrow> 'f outcome" where
  "main py env ui s =
     then_part (then_part (then_part (enter_username ui s) (select_quiz env ui))
       (display_questions py env ui)) (end_screen py ui)"

text \<open>
  A session is a sequence of script runs, each with the services and the widget values of
  that run; the state of one run is the state the next one starts from, also when the
  run ended with an exception. A rerun is one more run, in which no button is clicked.
\<close>

definition run :: "'f pyfloat \<Rightarrow> 'f session_state \<Rightarrow> 'f env \<times> widgets \<Rightarrow> 'f session_state" where
  "run py s ev = fst (main py (fst ev) (snd ev) s)"

definition runs :: "'f pyfloat \<Rightarrow> ('f env \<times> widgets) list \<Rightarrow> 'f session_state" where
  "runs py evs = foldl (run py) (initial py) evs"

text \<open>
  From the state \<open>s\<close> on, Previous is never clicked and no run is ended by an exception
  of the grader.
\<close>

fun undisturbed :: "'f pyfloat \<Rightarrow> 'f session_state \<Rightarrow> ('f env \<times> widgets) list \<Rightarrow> bool" where
  "undisturbed py s [] = True"
| "undisturbed py s (ev # evs) =
     (clicked (snd ev) \<noteq> Some Previous \<and>
      snd (snd (main py (fst ev) (snd ev) s)) \<noteq> Raised GraderError \<and>
      undisturbed py (run py s ev) evs)"

section \<open>The aggregation as the specification words it\<close>

text \<open>
  Section 4.4 of the specification: \<open>aggregate(scoreRecords)\<close> fails with
  \<open>EmptyScoreSet\<close> if given zero records, and otherwise computes the arithmetic mean (sum
  divided by count). This definition follows the specification, not the script; it is
  compared with \<open>aggregate\<close> below.
\<close>

definition aggregate_spec :: "'f pyfloat \<Rightarrow> 'f list \<Rightarrow> exn + 'f" where
  "aggregate_spec py scores =
     (if scores = [] then Inl EmptyScoreSet
      else Inr (div_len py (foldl (add py) (zero py) scores) (length scores)))"

section \<open>A concrete arithmetic and a concrete session\<close>

text \<open>
  To evaluate the model on concrete inputs, the arithmetic is instantiated with exact
  rational arithmetic, and \<open>float\<close> with the decimal integer literals (an optional sign
  and digits) among the strings that it accepts. Binary floating-point arithmetic gives
  the same results on the numbers used below (small integers, their sums and quotients
  such as \<open>16 / 2\<close>), which it represents exactly.
\<close>

definition isdigit :: "char \<Rightarrow> bool" where
  "isdigit c = (let n = (of_char c :: nat) in 48 \<le> n \<and> n \<le> 57)"

definition digits_value :: "string \<Rightarrow> nat" where
  "digits_value ds = foldl (\<lambda>acc c. 10 * acc + (of_char c - 48)) 0 ds"

definition int_literal :: "string \<Rightarrow> rat option" where
  "int_literal s =
     (case s of
        [] \<Rightarrow> None
      | c # cs \<Rightarrow>
          if c = CHR ''-'' \<and> cs \<noteq> [] \<and> list_all isdigit cs then Some (- of_nat (digits_value cs))
          else if c = CHR ''+'' \<and> cs \<noteq> [] \<and> list_all isdigit cs then Some (of_nat (digits_value cs))
          else if list_all isdigit s then Some (of_nat (digits_value s))
          else None)"

definition exact_arith :: "rat pyfloat" where
  "exact_arith =
     \<lparr>float_of_str = int_literal, zero = 0, add = (+), div_len = (\<lambda>x n. x / of_nat n)\<rparr>"

text \<open>
  The scenario of section 8 of the specification: the quiz ``General Knowledge'' has two
  questions, the grader answers \<open>9\<close> for the first recorded answer and \<open>7\<close> otherwise,
  the database works.
\<close>

definition q1 :: question_row where
  "q1 = (11, ''Capital of France?'', ''Rome'', ''Paris'', ''Oslo'', ''Bern'')"

definition q2 :: question_row where
  "q2 = (12, ''Largest planet?'', ''Mars'', ''Venus'', ''Jupiter'', ''Mercury'')"

definition demo_env :: "rat env" where
  "demo_env =
     \<lparr>quizzes_query = Inr [(1, ''General Knowledge'')],
      questions_query = (\<lambda>_. Inr [q1, q2]),
      results_insert = (\<lambda>_ _ _ _. None),
      llm_complete = (\<lambda>p. if p = prompt ''Capital of France?'' ''Paris'' ''because B is correct''
                           then Some ''9'' else Some ''7'')\<rparr>"

text \<open>The widget values while the first and while the second question is shown.\<close>

definition ui1 :: widgets where
  "ui1 = \<lparr>text_input = ''Alice'', selectbox = ''General Knowledge'', radio = ''Paris'',
           text_area = ''because B is correct'', clicked = None\<rparr>"

definition ui2 :: widgets where
  "ui2 = \<lparr>text_input = ''Alice'', selectbox = ''General Knowledge'', radio = ''Jupiter'',
           text_area = ''C fits'', clicked = None\<rparr>"

definition click :: "button \<Rightarrow> widgets \<Rightarrow> widgets" where
  "click b ui = ui\<lparr>clicked := Some b\<rparr>"

text \<open>A rationale of a blank, a tabulator and a newline.\<close>

definition blank :: "widgets \<Rightarrow> widgets" where
  "blank ui = ui\<lparr>text_area := [CHR '' '', CHR 0x09, CHR 0x0A]\<rparr>"

text \<open>
  Alice enters her name and proceeds to the quiz; then she answers the first question.
  Each run that ends in \<open>st.rerun()\<close> is followed by the run without a click that it
  starts.
\<close>

definition alice_start :: "(rat env \<times> widgets) list" where
  "alice_start = [(demo_env, ui1), (demo_env, click Proceed ui1)]"

definition alice_first :: "(rat env \<times> widgets) list" where
  "alice_first = alice_start @ [(demo_env, click Next ui1), (demo_env, ui2)]"

text \<open>Then she submits the second answer.\<close>

definition alice_submit :: "(rat env \<times> widgets) list" where
  "alice_submit = alice_first @ [(demo_env, click Submit ui2), (demo_env, ui2)]"

text \<open>Instead of submitting, she goes back and forth twice.\<close>

definition alice_back_and_forth :: "(rat env \<times> widgets) list" where
  "alice_back_and_forth =
     alice_first @
     [(demo_env, click Previous ui2), (demo_env, ui1), (demo_env, click Next ui1), (demo_env, ui2),
      (demo_env, click Previous ui2), (demo_env, ui1), (demo_env, click Next ui1), (demo_env, ui2)]"

text \<open>She retakes the quiz after submitting.\<close>

definition alice_retake :: "(rat env \<times> widgets) list" where
  "alice_retake = alice_submit @ [(demo_env, click Retake_Quiz ui2)]"

text \<open>
  A grader that answers with a text that is no number for the first recorded answer and
  with \<open>42\<close> between blanks otherwise, and a database whose insert fails.
\<close>

definition odd_env :: "rat env" where
  "odd_env = demo_env
     \<lparr>llm_complete := (\<lambda>p. if p = prompt ''Capital of France?'' ''Paris'' ''because B is correct''
                            then Some ''excellent answer'' else Some '' 42 '')\<rparr>"

definition failing_env :: "rat env" where
  "failing_env = demo_env\<lparr>results_insert := (\<lambda>_ _ _ _. Some ''connection refused'')\<rparr>"

text \<open>A repository in which the quiz has lost its first question in the meantime.\<close>

definition changed_env :: "rat env" where
  "changed_env = demo_env\<lparr>questions_query := (\<lambda>_. Inr [q2])\<rparr>"

text \<open>A grader whose every call raises.\<close>

definition crashing_env :: "rat env" where
  "crashing_env = demo_env\<lparr>llm_complete := (\<lambda>_. None)\<rparr>"

text \<open>Alice clicks Submit twice while the grader is down.\<close>

definition alice_resubmit :: "(rat env \<times> widgets) list" where
  "alice_resubmit =
     alice_first @ [(crashing_env, click Submit ui2), (crashing_env, click Submit ui2)]"

text \<open>A repository in which the selected quiz has no questions.\<close>

definition empty_env :: "rat env" where
  "empty_env = demo_env\<lparr>questions_query := (\<lambda>_. Inr [])\<rparr>"

section \<open>Invariants of a session\<close>

text \<open>
  What every sequence of runs maintains: the index stays within the stored questions,
  and as long as Proceed has not been clicked the index is \<open>0\<close>, nothing is recorded
  and the quiz is not completed.
\<close>

definition session_inv :: "'f session_state \<Rightarrow> bool" where
  "session_inv s =
     (0 \<le> current_question_index s \<and>
      (questions s \<noteq> [] \<longrightarrow> current_question_index s < int (length (questions s))) \<and>
      (questions s = [] \<longrightarrow> current_question_index s = 0) \<and>
      (\<not> proceed_to_quiz s \<longrightarrow>
         current_question_index s = 0 \<and> answers s = [] \<and> \<not> quiz_completed s) \<and>
      (proceed_to_quiz s \<longrightarrow> username s \<noteq> []))"

text \<open>
  What the runs maintain in addition as long as Previous is never clicked and no run is
  ended by an exception of the grader: before the quiz is completed there is one
  recorded answer for each question before the current one.
\<close>

definition forward_inv :: "'f session_state \<Rightarrow> bool" where
  "forward_inv s =
     (session_inv s \<and>
      (\<not> quiz_completed s \<longrightarrow> int (length (answers s)) = current_question_index s) \<and>
      (quiz_completed s \<longrightarrow> length (answers s) \<le> length (questions s)))"

section \<open>Basic facts about the parts of a run\<close>

lemma then_part_Fallthrough [simp]:
  "then_part (s, m, Fallthrough) f = (fst (f s), m @ fst (snd (f s)), snd (snd (f s)))"
  by (simp add: then_part_def case_prod_beta)

lemma then_part_Rerun [simp]: "then_part (s, m, Rerun) f = (s, m, Rerun)"
  by (simp add: then_part_def)

lemma then_part_Raised [simp]: "then_part (s, m, Raised e) f = (s, m, Raised e)"
  by (simp add: then_part_def)

lemma fst_then_part:
  "fst (then_part r f) = (if snd (snd r) = Fallthrough then fst (f (fst r)) else fst r)"
  by (cases r; cases "snd (snd r)") (auto simp: then_part_def split: prod.splits)

lemma flow_then_part:
  "snd (snd (then_part r f)) =
     (if snd (snd r) = Fallthrough then snd (snd (f (fst r))) else snd (snd r))"
  by (cases r; cases "snd (snd r)") (auto simp: then_part_def split: prod.splits)

lemma aggregate_nonempty:
  "scores \<noteq> [] \<Longrightarrow>
   aggregate py scores = Inr (div_len py (foldl (add py) (zero py) scores) (length scores))"
  by (simp add: aggregate_def truediv_len_def py_sum_def)

lemma getitem_Inr_nonempty: "getitem xs i = Inr x \<Longrightarrow> xs \<noteq> []"
  by (auto simp: getitem_def split: if_splits)

lemma py_sum_exact: "foldl (add exact_arith) a xs = a + sum_list xs"
  by (induction xs arbitrary: a) (simp_all add: exact_arith_def)

subsection \<open>The grading loop\<close>

text \<open>When the grader returns a response for every answer, the loop grades them all.\<close>

lemma score_loop_responses:
  assumes "\<forall>a \<in> set as.
     llm_complete env (prompt (question a) (selected_answer a) (rationale a)) = Some (response a)"
  shows "score_loop py env as scores msgs =
     (scores @ map (\<lambda>a. fst (parse_score py (response a))) as,
      msgs @ concat (map (\<lambda>a. snd (parse_score py (response a))) as),
      None)"
  using assms
  by (induction as arbitrary: scores msgs)
     (simp_all add: get_score_from_groq_def case_prod_beta)

lemma grader_returns_responses:
  assumes "grader_returns env as"
  shows "\<forall>a \<in> set as.
     llm_complete env (prompt (question a) (selected_answer a) (rationale a)) =
       Some (the (llm_complete env (prompt (question a) (selected_answer a) (rationale a))))"
  using assms by (auto simp: grader_returns_def list_all_iff)

lemma responses_grader_returns:
  assumes "\<forall>a \<in> set as.
     llm_complete env (prompt (question a) (selected_answer a) (rationale a)) = Some (response a)"
  shows "grader_returns env as"
  using assms by (simp add: grader_returns_def list_all_iff)

lemma score_loop_returns:
  assumes "grader_returns env as"
  shows "snd (snd (score_loop py env as scores msgs)) = None"
    and "length (fst (score_loop py env as scores msgs)) = length scores + length as"
  using score_loop_responses[OF grader_returns_responses[OF assms], of py scores msgs]
  by simp_all

text \<open>Otherwise the exception of the first call that raises ends the loop.\<close>

lemma score_loop_raises:
  assumes "\<not> grader_returns env as"
  shows "snd (snd (score_loop py env as scores msgs)) = Some GraderError"
  using assms
proof (induction as arbitrary: scores msgs)
  case Nil
  then show ?case by (simp add: grader_returns_def)
next
  case (Cons a as)
  show ?case
  proof (cases "llm_complete env (prompt (question a) (selected_answer a) (rationale a))")
    case None
    then show ?thesis by (simp add: get_score_from_groq_def)
  next
    case (Some response)
    with Cons.prems have "\<not> grader_returns env as"
      by (simp add: grader_returns_def)
    with Some Cons.IH show ?thesis
      by (simp add: get_score_from_groq_def case_prod_beta)
  qed
qed

subsection \<open>The Submit body\<close>

text \<open>The Submit body in closed form, when every call of the grader returns.\<close>

lemma submit_answers_returns:
  assumes "grader_returns env (answers s @ [entry])"
  shows "submit_answers py env entry s =
     (let as = answers s @ [entry];
          mean = div_len py (foldl (add py) (zero py) (scores_of py env as)) (length as)
      in (s\<lparr>answers := as, total_score := mean, quiz_completed := True\<rparr>,
          fst (snd (score_loop py env as [] [])) @
            log_quiz_results env (selected_quiz s) (username s) as mean,
          Rerun))"
proof -
  let ?as = "answers s @ [entry]"
  obtain scores m x where l: "score_loop py env ?as [] [] = (scores, m, x)"
    by (cases "score_loop py env ?as [] []") auto
  from score_loop_returns[OF assms, of py "[]" "[]"] l
  have x: "x = None" and n: "length scores = length ?as"
    by simp_all
  from n have "scores \<noteq> []" by auto
  then show ?thesis
    using l x n by (simp add: submit_answers_def scores_of_def aggregate_nonempty Let_def)
qed

text \<open>When a call raises, the answer has been appended and nothing else has changed.\<close>

lemma submit_answers_raises:
  assumes "\<not> grader_returns env (answers s @ [entry])"
  shows "submit_answers py env entry s =
     (s\<lparr>answers := answers s @ [entry]\<rparr>,
      fst (snd (score_loop py env (answers s @ [entry]) [] [])), Raised GraderError)"
proof -
  let ?as = "answers s @ [entry]"
  obtain scores m x where l: "score_loop py env ?as [] [] = (scores, m, x)"
    by (cases "score_loop py env ?as [] []") auto
  from score_loop_raises[OF assms, of py "[]" "[]"] l have "x = Some GraderError"
    by simp
  with l show ?thesis
    by (simp add: submit_answers_def Let_def)
qed

lemma submit_answers_cases:
  "submit_answers py env entry s =
     (if grader_returns env (answers s @ [entry]) then
        (s\<lparr>answers := answers s @ [entry],
           total_score := div_len py (foldl (add py) (zero py)
               (scores_of py env (answers s @ [entry]))) (length (answers s @ [entry])),
           quiz_completed := True\<rparr>,
         fst (snd (score_loop py env (answers s @ [entry]) [] [])) @
           log_quiz_results env (selected_quiz s) (username s) (answers s @ [entry])
             (div_len py (foldl (add py) (zero py)
               (scores_of py env (answers s @ [entry]))) (length (answers s @ [entry]))),
         Rerun)
      else
        (s\<lparr>answers := answers s @ [entry]\<rparr>,
         fst (snd (score_loop py env (answers s @ [entry]) [] [])), Raised GraderError))"
  by (simp add: submit_answers_returns submit_answers_raises Let_def)

lemma display_questions_Fallthrough:
  "snd (snd (display_questions py env ui s)) = Fallthrough \<Longrightarrow>
   fst (display_questions py env ui s) = s"
  by (auto simp: display_questions_def submit_answers_cases Let_def
      split: sum.splits prod.splits if_splits)

text \<open>While a quiz is in progress, only Step 3 does anything.\<close>

lemma main_in_progress:
  assumes "username s \<noteq> []" "proceed_to_quiz s" "\<not> quiz_completed s"
  shows "main py env ui s = display_questions py env ui s"
proof -
  have 1: "enter_username ui s = (s, [], Fallthrough)"
    using assms by (simp add: enter_username_def)
  have 2: "select_quiz env ui s = (s, [], Fallthrough)"
    using assms by (simp add: select_quiz_def awaiting_quiz_selection_def)
  obtain s' m c where d: "display_questions py env ui s = (s', m, c)"
    by (cases "display_questions py env ui s") auto
  show ?thesis
  proof (cases c)
    case Fallthrough
    with d display_questions_Fallthrough[of py env ui s] have "s' = s" by simp
    with d Fallthrough assms show ?thesis
      by (simp add: main_def 1 2 end_screen_def)
  next
    case Rerun
    with d show ?thesis by (simp add: main_def 1 2)
  next
    case (Raised e)
    with d show ?thesis by (simp add: main_def 1 2)
  qed
qed

lemma main_submitting:
  assumes "submitting ui s"
  shows "main py env ui s =
     (case getitem (questions s) (current_question_index s) of
        Inr (qid, q, oa, ob, oc, od) \<Rightarrow>
          submit_answers py env \<lparr>question = q, selected_answer = radio ui, rationale = text_area ui\<rparr> s
      | Inl e \<Rightarrow> (s, [], Raised e))"
proof -
  have m: "main py env ui s = display_questions py env ui s"
    using assms by (intro main_in_progress) (simp_all add: submitting_def in_progress_def)
  show ?thesis
    unfolding m using assms
    by (simp add: display_questions_def submitting_def st_button_def Let_def
        split: sum.splits prod.splits)
qed

text \<open>
  A run in which Submit is clicked with a rationale is the Submit body for some entry,
  which it appends whether the grader returns or not.
\<close>

lemma main_submitting_entry:
  assumes "submitting ui s"
  shows "\<exists>entry. main py env ui s = submit_answers py env entry s
               \<and> answers (fst (main py env ui s)) = answers s @ [entry]"
proof -
  obtain qid q oa ob oc od where
    g: "getitem (questions s) (current_question_index s) = Inr (qid, q, oa, ob, oc, od)"
    using assms
    by (cases "questions s ! nat (current_question_index s)") (auto simp: submitting_def getitem_def)
  show ?thesis
    unfolding main_submitting[OF assms] g
    by (intro exI[of _ "\<lparr>question = q, selected_answer = radio ui, rationale = text_area ui\<rparr>"])
       (simp add: submit_answers_cases)
qed

lemma main_submitting_state:
  assumes "submitting ui s" and "grader_returns env (answers (fst (main py env ui s)))"
  shows "\<exists>entry. fst (main py env ui s) =
            s\<lparr>answers := answers s @ [entry],
              total_score := div_len py (foldl (add py) (zero py) (scores_of py env (answers s @ [entry])))
                               (length (answers s @ [entry])),
              quiz_completed := True\<rparr>
          \<and> snd (snd (main py env ui s)) = Rerun
          \<and> fst (snd (main py env ui s)) =
              fst (snd (score_loop py env (answers s @ [entry]) [] [])) @
              log_quiz_results env (selected_quiz s) (username s) (answers s @ [entry])
                (div_len py (foldl (add py) (zero py) (scores_of py env (answers s @ [entry])))
                               (length (answers s @ [entry])))"
proof -
  from main_submitting_entry[OF assms(1), of py env] obtain entry where
    e: "main py env ui s = submit_answers py env entry s"
       "answers (fst (main py env ui s)) = answers s @ [entry]"
    by blast
  from assms(2) e(2) have r: "grader_returns env (answers s @ [entry])"
    by simp
  show ?thesis
    unfolding e(1) by (intro exI[of _ entry]) (simp add: submit_answers_returns[OF r] Let_def)
qed

subsection \<open>The invariants hold\<close>

lemma main_preserves:
  assumes "P s"
    and "\<And>s. P s \<Longrightarrow> P (fst (enter_username ui s))"
    and "\<And>s. P s \<Longrightarrow> P (fst (select_quiz env ui s))"
    and "\<And>s. P s \<Longrightarrow> P (fst (display_questions py env ui s))"
    and "\<And>s. P s \<Longrightarrow> P (fst (end_screen py ui s))"
  shows "P (fst (main py env ui s))"
  unfolding main_def fst_then_part using assms by simp

lemma session_inv_initial: "session_inv (initial py)"
  by (simp add: session_inv_def initial_def)

lemma session_inv_enter_username: "session_inv s \<Longrightarrow> session_inv (fst (enter_username ui s))"
  by (auto simp: session_inv_def enter_username_def Let_def)

lemma session_inv_select_quiz: "session_inv s \<Longrightarrow> session_inv (fst (select_quiz env ui s))"
  by (auto simp: session_inv_def select_quiz_def awaiting_quiz_selection_def Let_def
      split: prod.splits sum.splits)

lemma session_inv_display_questions:
  "session_inv s \<Longrightarrow> session_inv (fst (display_questions py env ui s))"
  by (auto simp: session_inv_def display_questions_def in_progress_def submit_answers_cases Let_def
      split: prod.splits sum.splits)

lemma session_inv_end_screen: "session_inv s \<Longrightarrow> session_inv (fst (end_screen py ui s))"
  by (auto simp: session_inv_def end_screen_def initial_def Let_def)

lemma session_inv_main: "session_inv s \<Longrightarrow> session_inv (fst (main py env ui s))"
  by (rule main_preserves[where P = session_inv])
     (simp_all add: session_inv_enter_username session_inv_select_quiz
        session_inv_display_questions session_inv_end_screen)

lemma runs_snoc: "runs py (evs @ [ev]) = fst (main py (fst ev) (snd ev) (runs py evs))"
  by (simp add: runs_def run_def)

lemma session_inv_runs: "session_inv (runs py evs)"
proof (induction evs rule: rev_induct)
  case Nil
  show ?case by (simp add: runs_def session_inv_initial)
next
  case (snoc ev evs)
  then show ?case by (simp add: runs_snoc session_inv_main)
qed

lemma forward_inv_initial: "forward_inv (initial py)"
  by (simp add: forward_inv_def session_inv_initial) (simp add: initial_def)

lemma forward_inv_enter_username: "forward_inv s \<Longrightarrow> forward_inv (fst (enter_username ui s))"
  by (auto simp: forward_inv_def session_inv_def enter_username_def Let_def)

lemma forward_inv_select_quiz: "forward_inv s \<Longrightarrow> forward_inv (fst (select_quiz env ui s))"
  by (auto simp: forward_inv_def session_inv_def select_quiz_def awaiting_quiz_selection_def Let_def
      split: prod.splits sum.splits)

lemma length_one: "xs \<noteq> [] \<Longrightarrow> \<not> Suc 0 < length xs \<Longrightarrow> Suc 0 = length xs"
  by (cases xs) auto

lemma forward_inv_display_questions:
  "forward_inv s \<Longrightarrow> clicked ui \<noteq> Some Previous \<Longrightarrow>
   snd (snd (display_questions py env ui s)) \<noteq> Raised GraderError \<Longrightarrow>
   forward_inv (fst (display_questions py env ui s))"
  by (auto simp: forward_inv_def session_inv_def display_questions_def in_progress_def
      submit_answers_cases st_button_def Let_def split: prod.splits sum.splits if_splits
      intro: length_one)

lemma forward_inv_end_screen: "forward_inv s \<Longrightarrow> forward_inv (fst (end_screen py ui s))"
  by (auto simp: forward_inv_def session_inv_def end_screen_def initial_def Let_def)

lemma flow_enter_username: "snd (snd (enter_username ui s)) = Fallthrough"
  by (simp add: enter_username_def Let_def)

lemma flow_select_quiz: "snd (snd (select_quiz env ui s)) \<noteq> Raised GraderError"
  by (auto simp: select_quiz_def quiz_options_def Let_def
      split: prod.splits sum.splits option.splits)

lemma flow_end_screen: "snd (snd (end_screen py ui s)) \<noteq> Raised GraderError"
  by (simp add: end_screen_def Let_def)

lemma forward_inv_main:
  assumes "forward_inv s" and "clicked ui \<noteq> Some Previous"
    and "snd (snd (main py env ui s)) \<noteq> Raised GraderError"
  shows "forward_inv (fst (main py env ui s))"
proof -
  let ?r1 = "enter_username ui s"
  let ?r2 = "then_part ?r1 (select_quiz env ui)"
  let ?r3 = "then_part ?r2 (display_questions py env ui)"
  have f1: "forward_inv (fst ?r1)"
    using assms(1) by (rule forward_inv_enter_username)
  have f2: "forward_inv (fst ?r2)"
    using f1 by (simp add: fst_then_part forward_inv_select_quiz)
  have m: "main py env ui s = then_part ?r3 (end_screen py ui)"
    by (simp add: main_def)
  have n3: "snd (snd ?r3) \<noteq> Raised GraderError"
    using assms(3) unfolding m flow_then_part by (auto split: if_splits)
  have f3: "forward_inv (fst ?r3)"
  proof (cases "snd (snd ?r2) = Fallthrough")
    case True
    with n3 have "snd (snd (display_questions py env ui (fst ?r2))) \<noteq> Raised GraderError"
      by (simp add: flow_then_part)
    with f2 assms(2) True show ?thesis
      by (simp add: fst_then_part forward_inv_display_questions)
  next
    case False
    with f2 show ?thesis by (simp add: fst_then_part)
  qed
  show ?thesis
    unfolding m using f3 by (simp add: fst_then_part forward_inv_end_screen)
qed

lemma forward_inv_undisturbed:
  "forward_inv s \<Longrightarrow> undisturbed py s evs \<Longrightarrow> forward_inv (foldl (run py) s evs)"
proof (induction evs arbitrary: s)
  case Nil
  then show ?case by simp
next
  case (Cons ev evs)
  from Cons.prems have "forward_inv (run py s ev)"
    by (simp add: run_def forward_inv_main)
  with Cons.prems Cons.IH show ?case by simp
qed

text \<open>
  Every state in which a question is shown after some sequence of runs has a user name
  and an index within the questions.
\<close>

lemma in_progress_runs:
  assumes "in_progress (runs py evs)"
  shows "username (runs py evs) \<noteq> [] \<and> 0 \<le> current_question_index (runs py evs)
       \<and> current_question_index (runs py evs) < int (length (questions (runs py evs)))"
  using assms session_inv_runs[of py evs] by (simp add: in_progress_def session_inv_def)

text \<open>A click on Proceed stores what \<open>fetch_questions\<close> returns for the selected quiz.\<close>

lemma proceed_fetches:
  assumes "awaiting_quiz_selection s" and "\<not> quiz_completed s"
    and "quizzes_query env = Inr quizzes"
    and "quiz_options quizzes (selectbox ui) = Inr quiz_id"
    and "clicked ui = Some Proceed"
  shows "questions (fst (main py env ui s)) = fst (fetch_questions env (Some quiz_id))"
proof -
  let ?qs = "fst (fetch_questions env (Some quiz_id))"
  let ?t = "s\<lparr>selected_quiz := Some quiz_id, proceed_to_quiz := True, questions := ?qs\<rparr>"
  have n: "username s \<noteq> []"
    using assms(1) by (simp add: awaiting_quiz_selection_def)
  have q: "quizzes \<noteq> []"
    using assms(4) by (auto simp: quiz_options_def)
  have e: "enter_username ui s = (s, [], Fallthrough)"
    using n by (simp add: enter_username_def)
  have s2: "fst (select_quiz env ui s) = ?t" "snd (snd (select_quiz env ui s)) = Fallthrough"
    using assms q
    by (simp_all add: select_quiz_def fetch_quizzes_def st_button_def Let_def split: prod.splits)
  have d: "questions (fst (display_questions py env ui ?t)) = ?qs"
    using assms(5)
    by (auto simp: display_questions_def st_button_def Let_def split: sum.splits prod.splits)
  have d': "\<not> quiz_completed (fst (display_questions py env ui ?t))"
    using assms(2,5)
    by (auto simp: display_questions_def st_button_def Let_def split: sum.splits prod.splits)
  have x: "fst (end_screen py ui u) = u" if "\<not> quiz_completed u" for u :: "'a session_state"
    using that by (simp add: end_screen_def)
  show ?thesis
    unfolding main_def fst_then_part
    by (cases "select_quiz env ui s") (use s2 d d' x e in \<open>auto simp: then_part_def split: flow.splits\<close>)
qed

text \<open>
  Once Proceed has been clicked and no question is stored, no step of the script does
  anything any more.
\<close>

lemma main_stuck:
  assumes "username s \<noteq> []" and "proceed_to_quiz s" and "questions s = []"
    and "\<not> quiz_completed s"
  shows "main py env ui s = (s, [], Fallthrough)"
  using assms
  by (simp add: main_def enter_username_def select_quiz_def display_questions_def end_screen_def
      awaiting_quiz_selection_def in_progress_def)

section \<open>The claims of the specification\<close>

subsection \<open>Rejected and accepted answers\<close>

text \<open>
  Claim C2. While a question is shown, a click on Next (shown before the last question)
  or on Submit (shown at the last question) with a rationale that is empty after
  stripping whitespace is rejected with a warning and leaves the whole session state as
  it was. With a rationale that is not blank, Next appends exactly one entry for the
  current question and increments the index by one; Submit appends exactly one entry
  for the current question and leaves the index, and it completes the quiz exactly
  when the grader returns a response for every recorded answer.
\<close>

theorem rationale_guard:
  assumes "username s \<noteq> []" and "proceed_to_quiz s" and "\<not> quiz_completed s"
    and "getitem (questions s) (current_question_index s) = Inr (qid, q, oa, ob, oc, od)"
  shows "(clicked ui = Some Next \<and> current_question_index s < int (length (questions s)) - 1 \<and>
            strip (text_area ui) = [] \<longrightarrow>
          main py env ui s =
            (s, [Warning ''Please provide a rationale before proceeding.''], Fallthrough))
       \<and> (clicked ui = Some Submit \<and> \<not> current_question_index s < int (length (questions s)) - 1 \<and>
            strip (text_area ui) = [] \<longrightarrow>
          main py env ui s =
            (s, [Warning ''Please provide a rationale before submitting.''], Fallthrough))
       \<and> (clicked ui = Some Next \<and> current_question_index s < int (length (questions s)) - 1 \<and>
            strip (text_area ui) \<noteq> [] \<longrightarrow>
          main py env ui s =
            (s\<lparr>answers := answers s @
                  [\<lparr>question = q, selected_answer = radio ui, rationale = text_area ui\<rparr>],
               current_question_index := current_question_index s + 1\<rparr>, [], Rerun))
       \<and> (clicked ui = Some Submit \<and> \<not> current_question_index s < int (length (questions s)) - 1 \<and>
            strip (text_area ui) \<noteq> [] \<longrightarrow>
          answers (fst (main py env ui s)) = answers s @
               [\<lparr>question = q, selected_answer = radio ui, rationale = text_area ui\<rparr>]
          \<and> current_question_index (fst (main py env ui s)) = current_question_index s
          \<and> quiz_completed (fst (main py env ui s)) =
              grader_returns env (answers s @
                [\<lparr>question = q, selected_answer = radio ui, rationale = text_area ui\<rparr>]))"
proof -
  have ip: "in_progress s"
    using assms getitem_Inr_nonempty[OF assms(4)] by (simp add: in_progress_def)
  have m: "main py env ui s = display_questions py env ui s"
    by (rule main_in_progress[OF assms(1-3)])
  show ?thesis
    unfolding m using ip assms(3,4)
    by (simp add: display_questions_def st_button_def submit_answers_cases Let_def)
qed

theorem rationale_guard_witness:
  "main exact_arith demo_env (click Next (blank ui1)) (runs exact_arith alice_start) =
     (runs exact_arith alice_start,
      [Warning ''Please provide a rationale before proceeding.''], Fallthrough)
   \<and> main exact_arith demo_env (click Submit (blank ui2)) (runs exact_arith alice_first) =
     (runs exact_arith alice_first,
      [Warning ''Please provide a rationale before submitting.''], Fallthrough)
   \<and> main exact_arith demo_env (click Next ui1) (runs exact_arith alice_start) =
     ((runs exact_arith alice_start)
        \<lparr>answers := [\<lparr>question = ''Capital of France?'', selected_answer = ''Paris'',
                       rationale = ''because B is correct''\<rparr>],
         current_question_index := 1\<rparr>, [], Rerun)
   \<and> length (answers (fst (main exact_arith demo_env (click Submit ui2) (runs exact_arith alice_first)))) = 2"
proof -
  let ?A = "runs exact_arith alice_start" and ?B = "runs exact_arith alice_first"
  have a: "username ?A \<noteq> []" "proceed_to_quiz ?A" "\<not> quiz_completed ?A"
    "getitem (questions ?A) (current_question_index ?A) =
       Inr (11, ''Capital of France?'', ''Rome'', ''Paris'', ''Oslo'', ''Bern'')"
    by code_simp+
  have b: "username ?B \<noteq> []" "proceed_to_quiz ?B" "\<not> quiz_completed ?B"
    "getitem (questions ?B) (current_question_index ?B) =
       Inr (12, ''Largest planet?'', ''Mars'', ''Venus'', ''Jupiter'', ''Mercury'')"
    by code_simp+
  have c1: "clicked (click Next (blank ui1)) = Some Next \<and>
      current_question_index ?A < int (length (questions ?A)) - 1 \<and>
      strip (text_area (click Next (blank ui1))) = []"
    by code_simp
  have c2: "clicked (click Submit (blank ui2)) = Some Submit \<and>
      \<not> current_question_index ?B < int (length (questions ?B)) - 1 \<and>
      strip (text_area (click Submit (blank ui2))) = []"
    by code_simp
  have c3: "clicked (click Next ui1) = Some Next \<and>
      current_question_index ?A < int (length (questions ?A)) - 1 \<and>
      strip (text_area (click Next ui1)) \<noteq> []"
    by code_simp
  have c4: "clicked (click Submit ui2) = Some Submit \<and>
      \<not> current_question_index ?B < int (length (questions ?B)) - 1 \<and>
      strip (text_area (click Submit ui2)) \<noteq> []"
    by code_simp
  have v: "answers ?A = []" "current_question_index ?A = 0" "length (answers ?B) = 1"
    "radio (click Next ui1) = ''Paris''" "text_area (click Next ui1) = ''because B is correct''"
    by code_simp+
  show ?thesis
    using rationale_guard[OF a, of "click Next (blank ui1)" exact_arith demo_env]
      rationale_guard[OF b, of "click Submit (blank ui2)" exact_arith demo_env]
      rationale_guard[OF a, of "click Next ui1" exact_arith demo_env]
      rationale_guard[OF b, of "click Submit ui2" exact_arith demo_env]
      c1 c2 c3 c4 v
    by simp
qed

subsection \<open>Going back\<close>

text \<open>
  Claim C8. While a question is shown, a click on Previous decrements the index when it
  is positive and does nothing when it is \<open>0\<close> (the button is not even shown then); in
  both cases the recorded answers are the same list as before.
\<close>

theorem goBack_frame:
  assumes "username s \<noteq> []" and "in_progress s"
    and "0 \<le> current_question_index s"
    and "current_question_index s < int (length (questions s))"
    and "clicked ui = Some Previous"
  shows "main py env ui s =
           (if current_question_index s > 0
            then (s\<lparr>current_question_index := current_question_index s - 1\<rparr>, [], Rerun)
            else (s, [], Fallthrough))
         \<and> answers (fst (main py env ui s)) = answers s"
proof -
  have m: "main py env ui s = display_questions py env ui s"
    using assms(1,2) by (intro main_in_progress) (simp_all add: in_progress_def)
  show ?thesis
    unfolding m using assms
    by (simp add: display_questions_def st_button_def getitem_def Let_def split: prod.splits)
qed

theorem goBack_frame_witness:
  "main exact_arith demo_env (click Previous ui2) (runs exact_arith alice_first) =
     ((runs exact_arith alice_first)\<lparr>current_question_index := 0\<rparr>, [], Rerun)
   \<and> main exact_arith demo_env (click Previous ui1) (runs exact_arith alice_start) =
     (runs exact_arith alice_start, [], Fallthrough)"
proof -
  let ?A = "runs exact_arith alice_start" and ?B = "runs exact_arith alice_first"
  have a: "username ?A \<noteq> []" "in_progress ?A" "0 \<le> current_question_index ?A"
    "current_question_index ?A < int (length (questions ?A))"
    "clicked (click Previous ui1) = Some Previous"
    by code_simp+
  have b: "username ?B \<noteq> []" "in_progress ?B" "0 \<le> current_question_index ?B"
    "current_question_index ?B < int (length (questions ?B))"
    "clicked (click Previous ui2) = Some Previous"
    by code_simp+
  have v: "current_question_index ?A = 0" "current_question_index ?B = 1"
    by code_simp+
  show ?thesis
    using goBack_frame[OF a, of exact_arith demo_env] goBack_frame[OF b, of exact_arith demo_env] v
    by simp
qed

subsection \<open>Scoring and aggregation\<close>

text \<open>
  Claim C3. After a submission in which the grader has returned a response for every
  recorded answer, the total score is the sum of the scores of all recorded answers,
  added up from the left in the order of the answers, divided by their number, with no
  other operation applied to it; the list of scores is not empty. In exact
  arithmetic this is the arithmetic mean. In the scenario of the specification the
  answers are recorded in the order of the questions, the scores are \<open>[9, 7]\<close> and
  the total score is \<open>8\<close>.
\<close>

theorem aggregate_is_mean:
  fixes s :: "'f session_state" and t :: "rat session_state"
  shows "(submitting ui s \<and> grader_returns env (answers (fst (main py env ui s))) \<longrightarrow>
           (let s' = fst (main py env ui s); scores = scores_of py env (answers s') in
              length scores = length (answers s) + 1 \<and>
              total_score s' = div_len py (foldl (add py) (zero py) scores) (length scores)))
       \<and> (submitting ui' t \<and> grader_returns env' (answers (fst (main exact_arith env' ui' t))) \<longrightarrow>
           (let t' = fst (main exact_arith env' ui' t); scores = scores_of exact_arith env' (answers t') in
              total_score t' = sum_list scores / of_nat (length scores)))
       \<and> (let a = runs exact_arith alice_submit in
            map question (answers a) = [''Capital of France?'', ''Largest planet?''] \<and>
            scores_of exact_arith demo_env (answers a) = [9, 7] \<and>
            total_score a = 8)"
proof -
  have 1: "submitting ui s \<and> grader_returns env (answers (fst (main py env ui s))) \<longrightarrow>
           (let s' = fst (main py env ui s); scores = scores_of py env (answers s') in
              length scores = length (answers s) + 1 \<and>
              total_score s' = div_len py (foldl (add py) (zero py) scores) (length scores))"
  proof
    assume a: "submitting ui s \<and> grader_returns env (answers (fst (main py env ui s)))"
    from main_submitting_state[of ui s env py] a obtain entry where
      e: "fst (main py env ui s) =
            s\<lparr>answers := answers s @ [entry],
              total_score := div_len py (foldl (add py) (zero py) (scores_of py env (answers s @ [entry])))
                               (length (answers s @ [entry])),
              quiz_completed := True\<rparr>" by blast
    from a e have r: "grader_returns env (answers s @ [entry])"
      by simp
    have n: "length (scores_of py env (answers s @ [entry])) = Suc (length (answers s))"
      using score_loop_returns(2)[OF r, of py "[]" "[]"] by (simp add: scores_of_def)
    show "let s' = fst (main py env ui s); scores = scores_of py env (answers s') in
              length scores = length (answers s) + 1 \<and>
              total_score s' = div_len py (foldl (add py) (zero py) scores) (length scores)"
      unfolding e using n by (simp add: Let_def)
  qed
  have 2: "submitting ui' t \<and> grader_returns env' (answers (fst (main exact_arith env' ui' t))) \<longrightarrow>
           (let t' = fst (main exact_arith env' ui' t); scores = scores_of exact_arith env' (answers t') in
              total_score t' = sum_list scores / of_nat (length scores))"
  proof
    assume a: "submitting ui' t \<and> grader_returns env' (answers (fst (main exact_arith env' ui' t)))"
    from main_submitting_state[of ui' t env' exact_arith] a obtain entry where
      e: "fst (main exact_arith env' ui' t) =
            t\<lparr>answers := answers t @ [entry],
              total_score := div_len exact_arith (foldl (add exact_arith) (zero exact_arith) (scores_of exact_arith env' (answers t @ [entry])))
                               (length (answers t @ [entry])),
              quiz_completed := True\<rparr>" by blast
    from a e have r: "grader_returns env' (answers t @ [entry])"
      by simp
    have n: "length (scores_of exact_arith env' (answers t @ [entry])) = Suc (length (answers t))"
      using score_loop_returns(2)[OF r, of exact_arith "[]" "[]"] by (simp add: scores_of_def)
    show "let t' = fst (main exact_arith env' ui' t); scores = scores_of exact_arith env' (answers t') in
              total_score t' = sum_list scores / of_nat (length scores)"
      unfolding e using n by (simp add: Let_def py_sum_exact) (simp add: exact_arith_def)
  qed
  have 3: "let a = runs exact_arith alice_submit in
            map question (answers a) = [''Capital of France?'', ''Largest planet?''] \<and>
            scores_of exact_arith demo_env (answers a) = [9, 7] \<and>
            total_score a = 8"
    by code_simp
  from 1 2 3 show ?thesis by blast
qed

theorem aggregate_is_mean_witness:
  "submitting (click Submit ui2) (runs exact_arith alice_first)
   \<and> (let s' = fst (main exact_arith demo_env (click Submit ui2) (runs exact_arith alice_first));
           scores = scores_of exact_arith demo_env (answers s')
       in scores = [9, 7] \<and> total_score s' = sum_list scores / of_nat (length scores))"
proof -
  let ?s = "fst (main exact_arith demo_env (click Submit ui2) (runs exact_arith alice_first))"
  have h: "submitting (click Submit ui2) (runs exact_arith alice_first)"
    by code_simp
  have g: "grader_returns demo_env (answers ?s)"
    by code_simp
  have v: "scores_of exact_arith demo_env (answers ?s) = [9, 7]"
    by code_simp
  from aggregate_is_mean[where ui' = "click Submit ui2" and t = "runs exact_arith alice_first"
      and env' = demo_env and ui = "click Submit ui2" and s = "runs exact_arith alice_first"
      and py = exact_arith and env = demo_env] h g
  have "total_score ?s = sum_list (scores_of exact_arith demo_env (answers ?s)) /
          of_nat (length (scores_of exact_arith demo_env (answers ?s)))"
    unfolding Let_def by blast
  with h v show ?thesis
    by (simp add: Let_def)
qed

text \<open>
  Claim C4. When the grader returns the response \<open>response a\<close> for every recorded answer
  \<open>a\<close>, the score of an answer is \<open>0\<close> when its stripped response is not accepted by
  \<open>float\<close>, and it is the parsed value, unchanged, otherwise; each failure is reported
  with an error message that quotes the response; the loop grades every recorded answer
  whatever the responses are and ends without an exception, and the submission
  completes the quiz and reports these messages.
\<close>

theorem parse_failure_scores_zero:
  assumes "\<forall>a \<in> set as.
     llm_complete env (prompt (question a) (selected_answer a) (rationale a)) = Some (response a)"
  shows "scores_of py env as =
     map (\<lambda>a. case float_of_str py (strip (response a)) of
                 None \<Rightarrow> zero py
               | Some v \<Rightarrow> v) as
   \<and> fst (snd (score_loop py env as [] [])) =
     concat (map (\<lambda>a. case float_of_str py (strip (response a)) of
                 None \<Rightarrow> [Error (''Failed to parse score from Groq response: '' @ response a)]
               | Some v \<Rightarrow> []) as)
   \<and> snd (snd (score_loop py env as [] [])) = None
   \<and> (submitting ui s \<and> answers (fst (main py env ui s)) = as \<longrightarrow>
        quiz_completed (fst (main py env ui s)) \<and>
        snd (snd (main py env ui s)) = Rerun \<and>
        length (scores_of py env as) = length (answers s) + 1 \<and>
        set (fst (snd (score_loop py env as [] []))) \<subseteq> set (fst (snd (main py env ui s))))"
proof -
  note l = score_loop_responses[OF assms, of py "[]" "[]"]
  have p1: "fst (parse_score py r) =
      (case float_of_str py (strip r) of None \<Rightarrow> zero py | Some v \<Rightarrow> v)" for r
    by (simp add: parse_score_def split: option.splits)
  have p2: "snd (parse_score py r) =
      (case float_of_str py (strip r) of
         None \<Rightarrow> [Error (''Failed to parse score from Groq response: '' @ r)]
       | Some v \<Rightarrow> [])" for r
    by (simp add: parse_score_def split: option.splits)
  have 1: "scores_of py env as =
     map (\<lambda>a. case float_of_str py (strip (response a)) of
                 None \<Rightarrow> zero py
               | Some v \<Rightarrow> v) as"
    by (simp add: scores_of_def l p1)
  have 2: "fst (snd (score_loop py env as [] [])) =
     concat (map (\<lambda>a. case float_of_str py (strip (response a)) of
                 None \<Rightarrow> [Error (''Failed to parse score from Groq response: '' @ response a)]
               | Some v \<Rightarrow> []) as)"
    by (simp add: l p2)
  have 3: "snd (snd (score_loop py env as [] [])) = None"
    by (simp add: l)
  have 4: "submitting ui s \<and> answers (fst (main py env ui s)) = as \<longrightarrow>
        quiz_completed (fst (main py env ui s)) \<and>
        snd (snd (main py env ui s)) = Rerun \<and>
        length (scores_of py env as) = length (answers s) + 1 \<and>
        set (fst (snd (score_loop py env as [] []))) \<subseteq> set (fst (snd (main py env ui s)))"
  proof
    assume a: "submitting ui s \<and> answers (fst (main py env ui s)) = as"
    have r: "grader_returns env (answers (fst (main py env ui s)))"
      using a responses_grader_returns[OF assms] by simp
    from main_submitting_state[of ui s env py] a r obtain entry where
      e: "fst (main py env ui s) =
            s\<lparr>answers := answers s @ [entry],
              total_score := div_len py (foldl (add py) (zero py) (scores_of py env (answers s @ [entry])))
                               (length (answers s @ [entry])),
              quiz_completed := True\<rparr>"
         "snd (snd (main py env ui s)) = Rerun"
         "fst (snd (main py env ui s)) =
              fst (snd (score_loop py env (answers s @ [entry]) [] [])) @
              log_quiz_results env (selected_quiz s) (username s) (answers s @ [entry])
                (div_len py (foldl (add py) (zero py) (scores_of py env (answers s @ [entry])))
                               (length (answers s @ [entry])))" by blast
    from a e(1) have as: "as = answers s @ [entry]"
      by simp
    have "quiz_completed (fst (main py env ui s))"
      unfolding e(1) by simp
    moreover have "length (scores_of py env as) = length (answers s) + 1"
      unfolding 1 by (simp add: as)
    moreover have "set (fst (snd (score_loop py env as [] []))) \<subseteq> set (fst (snd (main py env ui s)))"
      unfolding e(3) as by simp
    ultimately show "quiz_completed (fst (main py env ui s)) \<and>
        snd (snd (main py env ui s)) = Rerun \<and>
        length (scores_of py env as) = length (answers s) + 1 \<and>
        set (fst (snd (score_loop py env as [] []))) \<subseteq> set (fst (snd (main py env ui s)))"
      using e(2) by blast
  qed
  from 1 2 3 4 show ?thesis by blast
qed

theorem parse_failure_scores_zero_witness:
  "submitting (click Submit ui2) (runs exact_arith alice_first)
   \<and> (let r = main exact_arith odd_env (click Submit ui2) (runs exact_arith alice_first) in
        quiz_completed (fst r) \<and>
        scores_of exact_arith odd_env (answers (fst r)) = [0, 42] \<and>
        total_score (fst r) = 21 \<and>
        Error ''Failed to parse score from Groq response: excellent answer'' \<in> set (fst (snd r)))"
proof -
  let ?r = "main exact_arith odd_env (click Submit ui2) (runs exact_arith alice_first)"
  let ?response = "\<lambda>a. if prompt (question a) (selected_answer a) (rationale a) =
       prompt ''Capital of France?'' ''Paris'' ''because B is correct''
     then ''excellent answer'' else '' 42 ''"
  have h: "submitting (click Submit ui2) (runs exact_arith alice_first)"
    by code_simp
  have g: "\<forall>a \<in> set (answers (fst ?r)).
      llm_complete odd_env (prompt (question a) (selected_answer a) (rationale a)) =
        Some (?response a)"
    by (simp add: odd_env_def)
  have a: "answers (fst ?r) =
     [\<lparr>question = ''Capital of France?'', selected_answer = ''Paris'',
          rationale = ''because B is correct''\<rparr>,
       \<lparr>question = ''Largest planet?'', selected_answer = ''Jupiter'',
          rationale = ''C fits''\<rparr>]"
    by code_simp
  have v: "scores_of exact_arith odd_env (answers (fst ?r)) = [0, 42]"
    unfolding a by code_simp
  have t: "total_score (fst ?r) = 21"
    by code_simp
  have e: "fst (snd (score_loop exact_arith odd_env (answers (fst ?r)) [] [])) =
      [Error ''Failed to parse score from Groq response: excellent answer'']"
    unfolding a by code_simp
  from parse_failure_scores_zero[OF g, of exact_arith "click Submit ui2"
      "runs exact_arith alice_first"] h e
  have "quiz_completed (fst ?r)"
    and "Error ''Failed to parse score from Groq response: excellent answer'' \<in> set (fst (snd ?r))"
    by auto
  with h v t show ?thesis by (simp add: Let_def)
qed

text \<open>
  Claim C9. When the insert into the results table fails during a submission (so the
  grader has returned a response for every recorded answer), the failure is reported
  with an error message, the quiz is completed all the same, and the session state, the
  total score included, is the one that a successful insert leaves.
\<close>

theorem persistence_failure_is_not_fatal:
  assumes "submitting ui s" and "results_insert env = (\<lambda>_ _ _ _. Some e)"
    and "grader_returns env (answers (fst (main py env ui s)))"
  shows "quiz_completed (fst (main py env ui s))
       \<and> snd (snd (main py env ui s)) = Rerun
       \<and> Error (''Error logging quiz results: '' @ e) \<in> set (fst (snd (main py env ui s)))
       \<and> fst (main py env ui s) = fst (main py (env\<lparr>results_insert := (\<lambda>_ _ _ _. None)\<rparr>) ui s)"
proof -
  let ?env = "env\<lparr>results_insert := (\<lambda>_ _ _ _. None)\<rparr>"
  have g: "get_score_from_groq py ?env = get_score_from_groq py env"
    by (intro ext) (simp add: get_score_from_groq_def)
  have l: "score_loop py ?env as scores msgs = score_loop py env as scores msgs" for as scores msgs
    by (induction as arbitrary: scores msgs) (simp_all add: g split: sum.splits prod.splits)
  have r: "grader_returns ?env as = grader_returns env as" for as
    by (simp add: grader_returns_def)
  obtain qid q oa ob oc od where
    gi: "getitem (questions s) (current_question_index s) = Inr (qid, q, oa, ob, oc, od)"
    using assms(1)
    by (cases "questions s ! nat (current_question_index s)") (auto simp: submitting_def getitem_def)
  let ?entry = "\<lparr>question = q, selected_answer = radio ui, rationale = text_area ui\<rparr>"
  have m: "main py env' ui s = submit_answers py env' ?entry s" for env' :: "'a env"
    unfolding main_submitting[OF assms(1)] gi by simp
  have "answers (fst (main py env ui s)) = answers s @ [?entry]"
    unfolding m by (simp add: submit_answers_cases)
  with assms(3) have gr: "grader_returns env (answers s @ [?entry])"
    by simp
  show ?thesis
    unfolding m
    by (simp add: submit_answers_cases gr r l scores_of_def log_quiz_results_def assms(2))
qed

theorem persistence_failure_is_not_fatal_witness:
  "(let r = main exact_arith failing_env (click Submit ui2) (runs exact_arith alice_first) in
      quiz_completed (fst r) \<and> total_score (fst r) = 8 \<and>
      Error ''Error logging quiz results: connection refused'' \<in> set (fst (snd r)))"
proof -
  let ?r = "main exact_arith failing_env (click Submit ui2) (runs exact_arith alice_first)"
  have h: "submitting (click Submit ui2) (runs exact_arith alice_first)"
    by code_simp
  have f: "results_insert failing_env = (\<lambda>_ _ _ _. Some ''connection refused'')"
    by (simp add: failing_env_def)
  have g: "grader_returns failing_env (answers (fst ?r))"
    by code_simp
  have t: "total_score (fst ?r) = 8"
    by code_simp
  note p = persistence_failure_is_not_fatal[OF h f g]
  from p have c: "quiz_completed (fst ?r)"
    by blast
  from p have "Error (''Error logging quiz results: '' @ ''connection refused'') \<in> set (fst (snd ?r))"
    by blast
  then have m: "Error ''Error logging quiz results: connection refused'' \<in> set (fst (snd ?r))"
    by simp
  from c t m show ?thesis
    by (simp add: Let_def)
qed

text \<open>
  Claim C10. No run of \<open>main\<close> raises \<open>ZeroDivisionError\<close>, from whatever session state
  it starts: the Submit body appends the final answer before it grades, so whenever the
  grading loop ends without an exception, the list of scores that is divided by its
  length is not empty. The body ends in its \<open>st.rerun()\<close> or, when a call of the grader
  raises, in that exception.
\<close>

theorem scoring_never_divides_by_zero:
  "snd (snd (main py env ui s)) \<noteq> Raised ZeroDivisionError
   \<and> snd (snd (submit_answers py env entry s)) =
       (if grader_returns env (answers s @ [entry]) then Rerun else Raised GraderError)
   \<and> answers (fst (submit_answers py env entry s)) = answers s @ [entry]
   \<and> (snd (snd (score_loop py env (answers s @ [entry]) [] [])) = None \<longrightarrow>
        scores_of py env (answers s @ [entry]) \<noteq> [])"
proof -
  have e: "snd (snd (enter_username ui s)) = Fallthrough" for s :: "'a session_state"
    by (simp add: enter_username_def Let_def)
  have q: "snd (snd (select_quiz env ui s)) \<noteq> Raised ZeroDivisionError" for s :: "'a session_state"
    by (auto simp: select_quiz_def quiz_options_def Let_def split: prod.splits sum.splits option.splits)
  have d: "snd (snd (display_questions py env ui s)) \<noteq> Raised ZeroDivisionError" for s :: "'a session_state"
    by (auto simp: display_questions_def getitem_def submit_answers_cases Let_def split: prod.splits sum.splits)
  have x: "snd (snd (end_screen py ui s)) \<noteq> Raised ZeroDivisionError" for s :: "'a session_state"
    by (simp add: end_screen_def Let_def)
  have 1: "snd (snd (main py env ui s)) \<noteq> Raised ZeroDivisionError"
    unfolding main_def flow_then_part by (simp add: e q d x)
  have 2: "snd (snd (score_loop py env (answers s @ [entry]) [] [])) = None \<longrightarrow>
        scores_of py env (answers s @ [entry]) \<noteq> []"
  proof (cases "grader_returns env (answers s @ [entry])")
    case True
    from score_loop_returns(2)[OF True, of py "[]" "[]"] show ?thesis
      by (auto simp: scores_of_def)
  next
    case False
    from score_loop_raises[OF False, of py "[]" "[]"] show ?thesis
      by simp
  qed
  show ?thesis
    using 1 2 by (simp add: submit_answers_cases)
qed

theorem scoring_never_divides_by_zero_witness:
  "snd (snd (submit_answers exact_arith demo_env
      \<lparr>question = ''Largest planet?'', selected_answer = ''Jupiter'', rationale = ''C fits''\<rparr>
      (runs exact_arith alice_first))) = Rerun
   \<and> scores_of exact_arith demo_env (answers (runs exact_arith alice_first) @
      [\<lparr>question = ''Largest planet?'', selected_answer = ''Jupiter'', rationale = ''C fits''\<rparr>]) \<noteq> []"
proof -
  let ?e = "\<lparr>question = ''Largest planet?'', selected_answer = ''Jupiter'', rationale = ''C fits''\<rparr>"
  let ?s = "runs exact_arith alice_first"
  have g: "grader_returns demo_env (answers ?s @ [?e])"
    by code_simp
  have n: "snd (snd (score_loop exact_arith demo_env (answers ?s @ [?e]) [] [])) = None"
    by code_simp
  from scoring_never_divides_by_zero[of exact_arith demo_env _ ?s ?e] g n show ?thesis
    by simp
qed

text \<open>
  Claim C7, as amended. On an empty list of scores the expression
  \<open>sum(scores) / len(scores)\<close> computes no result: it raises \<open>ZeroDivisionError\<close> from
  the division itself. On every other list it gives what the aggregation of the
  specification gives.
\<close>

theorem aggregate_empty:
  "aggregate py scores =
     (if scores = [] then Inl ZeroDivisionError else aggregate_spec py scores)"
  by (simp add: aggregate_def aggregate_spec_def truediv_len_def py_sum_def)

text \<open>
  As the specification states it, C7 fails: on the empty list the script does not fail
  with \<open>EmptyScoreSet\<close> from a guard, as the aggregation of the specification does.
\<close>

theorem aggregate_empty_counterexample:
  "aggregate exact_arith [] \<noteq> aggregate_spec exact_arith []"
  by (simp add: aggregate_def aggregate_spec_def truediv_len_def)

subsection \<open>The length of the list of answers\<close>

text \<open>
  Claim C1, as amended. In a session in which Previous has never been clicked and no
  run has been ended by an exception of the grader, the number of recorded answers never
  exceeds the number of stored questions, and before the quiz is completed it equals the
  index of the current question.
\<close>

theorem answers_bounded_undisturbed:
  assumes "undisturbed py (initial py) evs"
  shows "length (answers (runs py evs)) \<le> length (questions (runs py evs))
       \<and> (\<not> quiz_completed (runs py evs) \<longrightarrow>
            int (length (answers (runs py evs))) = current_question_index (runs py evs))"
proof -
  have f: "forward_inv (runs py evs)"
    unfolding runs_def using forward_inv_initial assms by (rule forward_inv_undisturbed)
  show ?thesis
  proof (cases "quiz_completed (runs py evs)")
    case True
    with f show ?thesis by (simp add: forward_inv_def)
  next
    case False
    with f show ?thesis
      by (cases "questions (runs py evs) = []") (auto simp: forward_inv_def session_inv_def)
  qed
qed

theorem answers_bounded_undisturbed_witness:
  "length (answers (runs exact_arith alice_first)) \<le> length (questions (runs exact_arith alice_first))
   \<and> int (length (answers (runs exact_arith alice_first))) = current_question_index (runs exact_arith alice_first)
   \<and> length (answers (runs exact_arith alice_first)) = 1"
proof -
  have h: "undisturbed exact_arith (initial exact_arith) alice_first"
    by code_simp
  have c: "\<not> quiz_completed (runs exact_arith alice_first)"
    "length (answers (runs exact_arith alice_first)) = 1"
    by code_simp+
  from answers_bounded_undisturbed[OF h] c show ?thesis
    by blast
qed

text \<open>
  As the specification states it, C1 fails: after going back and answering the first of
  two questions three times, three answers are recorded while a question is still shown.
\<close>

theorem answers_exceed_questions_counterexample:
  "\<not> quiz_completed (runs exact_arith alice_back_and_forth)
   \<and> in_progress (runs exact_arith alice_back_and_forth)
   \<and> length (questions (runs exact_arith alice_back_and_forth)) = 2
   \<and> length (answers (runs exact_arith alice_back_and_forth)) = 3"
  by code_simp

text \<open>
  The exception of the grader matters: it leaves the Submit body after the append and
  before the quiz is marked as completed, so Submit is shown again. Two clicks on it
  while the grader is down record three answers for two questions, without any click on
  Previous.
\<close>

lemma resubmit_after_grader_exception:
  "snd (snd (main exact_arith crashing_env (click Submit ui2) (runs exact_arith alice_first))) =
     Raised GraderError
   \<and> in_progress (runs exact_arith alice_resubmit)
   \<and> length (questions (runs exact_arith alice_resubmit)) = 2
   \<and> length (answers (runs exact_arith alice_resubmit)) = 3
   \<and> current_question_index (runs exact_arith alice_resubmit) = 1
   \<and> list_all (\<lambda>ev. clicked (snd ev) \<noteq> Some Previous) alice_resubmit"
  by code_simp

subsection \<open>Retaking a quiz\<close>

text \<open>
  Claim C5, as amended. On the end screen a click on Retake Quiz sets the index to \<open>0\<close>,
  empties the list of answers, sets the total score to \<open>0\<close> and clears the flags
  \<open>quiz_completed\<close> and \<open>proceed_to_quiz\<close>: the session is back at the selection of a
  quiz, no question is shown, and the stored questions are untouched. The click on
  Proceed that follows replaces them by what \<open>fetch_questions\<close> returns then.
\<close>

theorem retake_returns_to_selection:
  assumes "quiz_completed s" and "proceed_to_quiz s" and "username s \<noteq> []"
    and "clicked ui = Some Retake_Quiz"
    and "quizzes_query env' = Inr quizzes"
    and "quiz_options quizzes (selectbox ui') = Inr quiz_id"
    and "clicked ui' = Some Proceed"
  shows "main py env ui s =
           (s\<lparr>current_question_index := 0, answers := [], quiz_completed := False,
              total_score := zero py, proceed_to_quiz := False\<rparr>,
            [Success ''Quiz completed! Thank you for participating.''], Rerun)
       \<and> awaiting_quiz_selection (fst (main py env ui s))
       \<and> \<not> in_progress (fst (main py env ui s))
       \<and> questions (fst (main py env ui s)) = questions s
       \<and> questions (fst (main py env' ui' (fst (main py env ui s)))) =
           fst (fetch_questions env' (Some quiz_id))"
proof -
  let ?t = "s\<lparr>current_question_index := 0, answers := [], quiz_completed := False,
              total_score := zero py, proceed_to_quiz := False\<rparr>"
  have m: "main py env ui s =
      (?t, [Success ''Quiz completed! Thank you for participating.''], Rerun)"
    using assms(1-4)
    by (simp add: main_def enter_username_def select_quiz_def display_questions_def end_screen_def
        awaiting_quiz_selection_def in_progress_def st_button_def Let_def)
  have a: "awaiting_quiz_selection ?t" "\<not> quiz_completed ?t"
    using assms(3) by (simp_all add: awaiting_quiz_selection_def)
  have f: "questions (fst (main py env' ui' ?t)) = fst (fetch_questions env' (Some quiz_id))"
    by (rule proceed_fetches[OF a assms(5-7)])
  show ?thesis
    unfolding m using a f by (simp add: in_progress_def)
qed

theorem retake_returns_to_selection_witness:
  "main exact_arith demo_env (click Retake_Quiz ui2) (runs exact_arith alice_submit) =
     ((runs exact_arith alice_submit)
        \<lparr>current_question_index := 0, answers := [], quiz_completed := False,
         total_score := 0, proceed_to_quiz := False\<rparr>,
      [Success ''Quiz completed! Thank you for participating.''], Rerun)
   \<and> questions (fst (main exact_arith changed_env (click Proceed ui1)
        (fst (main exact_arith demo_env (click Retake_Quiz ui2) (runs exact_arith alice_submit))))) =
       [q2]"
proof -
  have h: "quiz_completed (runs exact_arith alice_submit)"
    "proceed_to_quiz (runs exact_arith alice_submit)"
    "username (runs exact_arith alice_submit) \<noteq> []"
    "clicked (click Retake_Quiz ui2) = Some Retake_Quiz"
    "quizzes_query changed_env = Inr [(1, ''General Knowledge'')]"
    "quiz_options [(1, ''General Knowledge'')] (selectbox (click Proceed ui1)) = Inr 1"
    "clicked (click Proceed ui1) = Some Proceed"
    by code_simp+
  have z: "zero exact_arith = 0" "fst (fetch_questions changed_env (Some 1)) = [q2]"
    by code_simp+
  note r = retake_returns_to_selection[OF h, of exact_arith demo_env, unfolded z]
  from r show ?thesis
    by blast
qed

text \<open>
  As the specification states it, C5 fails: after Retake Quiz the session is not in
  progress, and the questions of the retaken quiz are those of a fresh fetch.
\<close>

theorem retake_counterexample:
  "quiz_completed (runs exact_arith alice_submit)
   \<and> \<not> in_progress (runs exact_arith alice_retake)
   \<and> awaiting_quiz_selection (runs exact_arith alice_retake)
   \<and> questions (runs exact_arith alice_submit) = [q1, q2]
   \<and> questions (runs exact_arith (alice_retake @ [(changed_env, ui1), (changed_env, click Proceed ui1)]))
       = [q2]"
  by code_simp

subsection \<open>Proceeding to a quiz\<close>

text \<open>
  A snapshot that is not empty. In a session that is at the selection of a quiz after
  any sequence of runs, a click on Proceed whose fetch returns at least one question
  stores the questions and sets \<open>proceed_to_quiz\<close>: a question is shown, the index is
  \<open>0\<close> and no answer is recorded. (Proceed does not assign the index; it is \<open>0\<close> in
  every such session.)
\<close>

lemma proceed_starts_quiz:
  assumes "awaiting_quiz_selection (runs py evs)"
    and "quizzes_query env = Inr quizzes"
    and "quiz_options quizzes (selectbox ui) = Inr quiz_id"
    and "clicked ui = Some Proceed"
    and "questions_query env (Some quiz_id) = Inr qs"
    and "qs \<noteq> []"
  shows "main py env ui (runs py evs) =
           ((runs py evs)\<lparr>selected_quiz := Some quiz_id, proceed_to_quiz := True, questions := qs\<rparr>,
            [], Fallthrough)
       \<and> in_progress (fst (main py env ui (runs py evs)))
       \<and> current_question_index (fst (main py env ui (runs py evs))) = 0
       \<and> answers (fst (main py env ui (runs py evs))) = []"
proof -
  let ?s = "runs py evs"
  have i: "session_inv ?s" by (rule session_inv_runs)
  have n: "username ?s \<noteq> []" "\<not> proceed_to_quiz ?s"
    using assms(1) by (simp_all add: awaiting_quiz_selection_def)
  with i have z: "current_question_index ?s = 0" "answers ?s = []" "\<not> quiz_completed ?s"
    by (simp_all add: session_inv_def)
  have q: "quizzes \<noteq> []"
    using assms(3) by (auto simp: quiz_options_def)
  have e: "enter_username ui ?s = (?s, [], Fallthrough)"
    using n by (simp add: enter_username_def)
  have s2: "select_quiz env ui ?s =
      (?s\<lparr>selected_quiz := Some quiz_id, proceed_to_quiz := True, questions := qs\<rparr>, [], Fallthrough)"
    using assms q
    by (simp add: select_quiz_def fetch_quizzes_def fetch_questions_def st_button_def Let_def)
  obtain qid q oa ob oc od where g: "getitem qs 0 = Inr (qid, q, oa, ob, oc, od)"
    using assms(6) by (cases "qs ! 0") (auto simp: getitem_def)
  have d: "display_questions py env ui
      (?s\<lparr>selected_quiz := Some quiz_id, proceed_to_quiz := True, questions := qs\<rparr>) =
      (?s\<lparr>selected_quiz := Some quiz_id, proceed_to_quiz := True, questions := qs\<rparr>, [], Fallthrough)"
    using assms(4,6) z g
    by (simp add: display_questions_def in_progress_def st_button_def Let_def)
  have x: "end_screen py ui
      (?s\<lparr>selected_quiz := Some quiz_id, proceed_to_quiz := True, questions := qs\<rparr>) =
      (?s\<lparr>selected_quiz := Some quiz_id, proceed_to_quiz := True, questions := qs\<rparr>, [], Fallthrough)"
    using z by (simp add: end_screen_def)
  have m: "main py env ui ?s =
      (?s\<lparr>selected_quiz := Some quiz_id, proceed_to_quiz := True, questions := qs\<rparr>, [], Fallthrough)"
    by (simp add: main_def e s2 d x)
  show ?thesis
    unfolding m using z assms(6) by (simp add: in_progress_def)
qed

lemma proceed_starts_quiz_example:
  "main exact_arith demo_env (click Proceed ui1) (runs exact_arith [(demo_env, ui1)]) =
     ((runs exact_arith [(demo_env, ui1)])
        \<lparr>selected_quiz := Some 1, proceed_to_quiz := True, questions := [q1, q2]\<rparr>, [], Fallthrough)"
proof -
  have h: "awaiting_quiz_selection (runs exact_arith [(demo_env, ui1)])"
    "quizzes_query demo_env = Inr [(1, ''General Knowledge'')]"
    "quiz_options [(1, ''General Knowledge'')] (selectbox (click Proceed ui1)) = Inr 1"
    "clicked (click Proceed ui1) = Some Proceed"
    "questions_query demo_env (Some 1) = Inr [q1, q2]"
    "[q1, q2] \<noteq> []"
    by code_simp+
  from proceed_starts_quiz[OF h] show ?thesis
    by simp
qed

text \<open>
  Claim C6, on a snapshot without questions: here the script does not do what the claim
  says. Alice has entered her name and clicks Proceed on a quiz for which the fetch
  returns no question. The run reports nothing and sets \<open>proceed_to_quiz\<close> all the same
  (line 150 comes before the fetch, and nothing looks at its result): the session has
  left the selection of a quiz, no question is shown, and every later run, whatever the
  services and the widgets, leaves the session as it is and shows nothing. The sibling
  case of a catalogue without quizzes (lines 152-153) warns and stays at the selection.
\<close>

theorem proceed_empty_snapshot_stuck:
  "awaiting_quiz_selection (runs exact_arith [(empty_env, ui1)])
   \<and> main exact_arith empty_env (click Proceed ui1) (runs exact_arith [(empty_env, ui1)]) =
       ((runs exact_arith [(empty_env, ui1)])\<lparr>proceed_to_quiz := True, questions := []\<rparr>,
        [], Fallthrough)
   \<and> \<not> awaiting_quiz_selection (runs exact_arith [(empty_env, ui1), (empty_env, click Proceed ui1)])
   \<and> \<not> in_progress (runs exact_arith [(empty_env, ui1), (empty_env, click Proceed ui1)])
   \<and> \<not> quiz_completed (runs exact_arith [(empty_env, ui1), (empty_env, click Proceed ui1)])
   \<and> main exact_arith env ui (runs exact_arith [(empty_env, ui1), (empty_env, click Proceed ui1)]) =
       (runs exact_arith [(empty_env, ui1), (empty_env, click Proceed ui1)], [], Fallthrough)"
proof -
  let ?s = "runs exact_arith [(empty_env, ui1), (empty_env, click Proceed ui1)]"
  have a: "awaiting_quiz_selection (runs exact_arith [(empty_env, ui1)])
   \<and> main exact_arith empty_env (click Proceed ui1) (runs exact_arith [(empty_env, ui1)]) =
       ((runs exact_arith [(empty_env, ui1)])\<lparr>proceed_to_quiz := True, questions := []\<rparr>,
        [], Fallthrough)"
    by code_simp
  have b: "\<not> awaiting_quiz_selection ?s" "\<not> in_progress ?s" "\<not> quiz_completed ?s"
    by code_simp+
  have h: "username ?s \<noteq> []" "proceed_to_quiz ?s" "questions ?s = []"
    by code_simp+
  from a b main_stuck[OF h b(3), of exact_arith env ui] show ?thesis
    by blast
qed

end
